theory Spec2Isabelle
  imports Complex_Main
begin

section \<open>Egalitarian division: the program of \<^verbatim>\<open>src/main.py\<close>\<close>

text \<open>
  \<^verbatim>\<open>egalitarian_division\<close> turns an agents-by-resources matrix of valuations into a
  linear program (through the modelling library), has the library solve it, and reads the
  answer back. The embedding follows that shape:

  \<^item> numeric arrays are index functions together with their shape;
  \<^item> the expressions and constraints handed to the modelling library are a small datatype
    with an evaluation function, so that what the program \<^emph>\<open>says\<close> can be stated;
  \<^item> the solver is outside the repository: it is a parameter of the model, a function
    from the problem to either the exception that \<^verbatim>\<open>problem.solve()\<close> raises or the
    status and the value of each variable that it leaves behind;
  \<^item> an exception is the \<open>Inl\<close> branch of a sum type: the \<^verbatim>\<open>raise\<close> of line 78, and
    whatever line 75 raises, which the source does not catch.

  Floating-point numbers are read as real numbers; statements that the specification
  makes "within numerical tolerance" carry an explicit tolerance \<open>e\<close>. The input is a
  two-dimensional numeric array, as line 60 unpacks its shape into two numbers; either
  number may be zero.
\<close>

subsection \<open>Arrays\<close>

text \<open>A two-dimensional numeric array: \<^verbatim>\<open>a.shape == (n_rows, n_cols)\<close>, \<^verbatim>\<open>a[i][j] == item a i j\<close>.\<close>

record ndarray =
  n_rows :: nat
  n_cols :: nat
  item :: "nat \<Rightarrow> nat \<Rightarrow> real"

text \<open>\<^verbatim>\<open>np.array([[...], ...])\<close> on a non-empty list of equally long rows.\<close>

definition np_array :: "real list list \<Rightarrow> ndarray" where
  "np_array rows =
     \<lparr>n_rows = length rows,
      n_cols = (case rows of [] \<Rightarrow> 0 | r # _ \<Rightarrow> length r),
      item = (\<lambda>i j. rows ! i ! j)\<rparr>"

subsection \<open>The modelling library: expressions, constraints, problems\<close>

text \<open>Values of expressions: a number, a vector of a length, a matrix of a shape.\<close>

datatype tensor =
    Scalar real
  | Vector nat "nat \<Rightarrow> real"
  | Matrix nat nat "nat \<Rightarrow> nat \<Rightarrow> real"

text \<open>
  The expressions the source builds. \<open>Allocations n m\<close> is \<^verbatim>\<open>cp.Variable((n, m))\<close>,
  \<open>MinUtility\<close> is \<^verbatim>\<open>cp.Variable()\<close>; \<open>Const\<close> holds a Python number or a row of the
  valuation matrix; \<open>Index e i\<close> is \<^verbatim>\<open>e[i]\<close>, \<open>Sum_axis0 e\<close> is \<^verbatim>\<open>cp.sum(e, axis=0)\<close>,
  \<open>Sum e\<close> is \<^verbatim>\<open>cp.sum(e)\<close> and \<open>Multiply\<close> is the elementwise \<^verbatim>\<open>cp.multiply\<close>.
\<close>

datatype expression =
    Allocations nat nat
  | MinUtility
  | Const tensor
  | Index expression nat
  | Sum_axis0 expression
  | Sum expression
  | Multiply expression expression

datatype constraint =
    Geq expression expression
  | Leq expression expression
  | Equals expression expression

datatype objective = Maximize expression

record problem =
  objective :: objective
  constraints :: "constraint list"

text \<open>
  What the solver leaves behind: \<^verbatim>\<open>problem.status\<close> and the \<^verbatim>\<open>.value\<close> of the two
  variables. The value of a variable has the variable's declared shape, so the value of
  the allocation variable is an index function read within that shape.
\<close>

record solution =
  problem_status :: string
  min_utility_value :: real
  allocations_value :: "nat \<Rightarrow> nat \<Rightarrow> real"

fun multiply_tensor :: "tensor \<Rightarrow> tensor \<Rightarrow> tensor option" where
  "multiply_tensor (Scalar x) (Scalar y) = Some (Scalar (x * y))"
| "multiply_tensor (Scalar x) (Vector n g) = Some (Vector n (\<lambda>j. x * g j))"
| "multiply_tensor (Vector n f) (Scalar y) = Some (Vector n (\<lambda>j. f j * y))"
| "multiply_tensor (Vector n f) (Vector n' g) =
     (if n = n' then Some (Vector n (\<lambda>j. f j * g j)) else None)"
| "multiply_tensor (Scalar x) (Matrix n m g) = Some (Matrix n m (\<lambda>i j. x * g i j))"
| "multiply_tensor (Matrix n m f) (Scalar y) = Some (Matrix n m (\<lambda>i j. f i j * y))"
| "multiply_tensor (Matrix n m f) (Matrix n' m' g) =
     (if n = n' \<and> m = m' then Some (Matrix n m (\<lambda>i j. f i j * g i j)) else None)"
| "multiply_tensor (Vector n f) (Matrix n' m' g) = None"
| "multiply_tensor (Matrix n m f) (Vector n' g) = None"

fun index_tensor :: "tensor \<Rightarrow> nat \<Rightarrow> tensor option" where
  "index_tensor (Matrix n m f) i = (if i < n then Some (Vector m (f i)) else None)"
| "index_tensor (Vector n f) i = (if i < n then Some (Scalar (f i)) else None)"
| "index_tensor (Scalar x) i = None"

fun sum_axis0_tensor :: "tensor \<Rightarrow> tensor" where
  "sum_axis0_tensor (Matrix n m f) = Vector m (\<lambda>j. \<Sum>i<n. f i j)"
| "sum_axis0_tensor (Vector n f) = Scalar (\<Sum>i<n. f i)"
| "sum_axis0_tensor (Scalar x) = Scalar x"

fun sum_tensor :: "tensor \<Rightarrow> tensor" where
  "sum_tensor (Matrix n m f) = Scalar (\<Sum>i<n. \<Sum>j<m. f i j)"
| "sum_tensor (Vector n f) = Scalar (\<Sum>j<n. f j)"
| "sum_tensor (Scalar x) = Scalar x"

text \<open>
  The value of an expression under the values of the variables; \<open>None\<close> where the
  library refuses the expression (an index out of range, shapes that do not match).
\<close>

fun eval :: "solution \<Rightarrow> expression \<Rightarrow> tensor option" where
  "eval s (Allocations n m) = Some (Matrix n m (allocations_value s))"
| "eval s MinUtility = Some (Scalar (min_utility_value s))"
| "eval s (Const t) = Some t"
| "eval s (Index a i) = (case eval s a of None \<Rightarrow> None | Some t \<Rightarrow> index_tensor t i)"
| "eval s (Sum_axis0 a) = map_option sum_axis0_tensor (eval s a)"
| "eval s (Sum a) = map_option sum_tensor (eval s a)"
| "eval s (Multiply a b) =
     (case eval s a of None \<Rightarrow> None
      | Some t \<Rightarrow> (case eval s b of None \<Rightarrow> None | Some u \<Rightarrow> multiply_tensor t u))"

text \<open>
  Elementwise comparison: a number is broadcast against a vector or a matrix, equal
  shapes are compared entry by entry.
\<close>

fun compare :: "(real \<Rightarrow> real \<Rightarrow> bool) \<Rightarrow> tensor \<Rightarrow> tensor \<Rightarrow> bool" where
  "compare r (Scalar x) (Scalar y) = r x y"
| "compare r (Scalar x) (Vector n g) = (\<forall>j<n. r x (g j))"
| "compare r (Vector n f) (Scalar y) = (\<forall>j<n. r (f j) y)"
| "compare r (Vector n f) (Vector n' g) = (n = n' \<and> (\<forall>j<n. r (f j) (g j)))"
| "compare r (Scalar x) (Matrix n m g) = (\<forall>i<n. \<forall>j<m. r x (g i j))"
| "compare r (Matrix n m f) (Scalar y) = (\<forall>i<n. \<forall>j<m. r (f i j) y)"
| "compare r (Matrix n m f) (Matrix n' m' g) =
     (n = n' \<and> m = m' \<and> (\<forall>i<n. \<forall>j<m. r (f i j) (g i j)))"
| "compare r (Vector n f) (Matrix n' m' g) = False"
| "compare r (Matrix n m f) (Vector n' g) = False"

text \<open>A constraint holds within the tolerance \<open>e\<close>; \<open>e = 0\<close> is exact.\<close>

fun holds :: "real \<Rightarrow> solution \<Rightarrow> constraint \<Rightarrow> bool" where
  "holds e s (Geq a b) =
     (case (eval s a, eval s b) of
        (Some t, Some u) \<Rightarrow> compare (\<lambda>x y. y \<le> x + e) t u | _ \<Rightarrow> False)"
| "holds e s (Leq a b) =
     (case (eval s a, eval s b) of
        (Some t, Some u) \<Rightarrow> compare (\<lambda>x y. x \<le> y + e) t u | _ \<Rightarrow> False)"
| "holds e s (Equals a b) =
     (case (eval s a, eval s b) of
        (Some t, Some u) \<Rightarrow> compare (\<lambda>x y. \<bar>x - y\<bar> \<le> e) t u | _ \<Rightarrow> False)"

definition satisfies :: "real \<Rightarrow> solution \<Rightarrow> problem \<Rightarrow> bool" where
  "satisfies e s p = list_all (holds e s) (constraints p)"

definition objective_value :: "solution \<Rightarrow> problem \<Rightarrow> real option" where
  "objective_value s p =
     (case objective p of
        Maximize a \<Rightarrow> (case eval s a of Some (Scalar x) \<Rightarrow> Some x | _ \<Rightarrow> None))"

text \<open>
  What it means for the values \<open>s\<close> to solve the problem \<open>p\<close> within \<open>e\<close>: every
  constraint holds within \<open>e\<close>, and no point that satisfies the constraints exactly has an
  objective value more than \<open>e\<close> above that of \<open>s\<close>.
\<close>

definition solves :: "real \<Rightarrow> solution \<Rightarrow> problem \<Rightarrow> bool" where
  "solves e s p =
     (satisfies e s p \<and>
      (\<exists>x. objective_value s p = Some x \<and>
        (\<forall>s' y. satisfies 0 s' p \<and> objective_value s' p = Some y \<longrightarrow> y \<le> x + e)))"

subsection \<open>The source function\<close>

text \<open>
  The exceptions that leave the function: the \<^verbatim>\<open>ValueError\<close> of line 78 and the
  \<^verbatim>\<open>SolverError\<close> that the modelling library raises from \<^verbatim>\<open>problem.solve()\<close> when
  the solver breaks down.
\<close>

datatype error = ValueError string | SolverError string

text \<open>The dictionary the function returns, one field for each key.\<close>

record result =
  status :: string
  min_utility :: real
  allocations :: ndarray
  utilities :: "real list"

text \<open>Lines 60 to 74: the variables, the constraints and the objective.\<close>

definition build_problem :: "ndarray \<Rightarrow> problem" where
  "build_problem valuation_matrix =
     (let n_agents = n_rows valuation_matrix;
          m_resources = n_cols valuation_matrix;
          allocations = Allocations n_agents m_resources;
          min_utility = MinUtility;
          constraints =
            [Geq allocations (Const (Scalar 0)),
             Leq allocations (Const (Scalar 1)),
             Equals (Sum_axis0 allocations) (Const (Scalar 1))]
            @ map (\<lambda>i. Leq min_utility
                     (Sum (Multiply (Index allocations i)
                        (Const (Vector m_resources (item valuation_matrix i))))))
                [0..<n_agents]
      in \<lparr>objective = Maximize min_utility, constraints = constraints\<rparr>)"

text \<open>
  Lines 60 to 88. \<open>solve\<close> stands for \<^verbatim>\<open>problem.solve()\<close> of line 75: it raises, and
  the exception goes to the caller, or it returns and leaves the status and the values
  behind. The utilities are the list comprehension of lines 84 to 87 over
  \<^verbatim>\<open>range(n_agents)\<close>.
\<close>

definition egalitarian_division ::
  "(problem \<Rightarrow> error + solution) \<Rightarrow> ndarray \<Rightarrow> error + result" where
  "egalitarian_division solve valuation_matrix =
     (let n_agents = n_rows valuation_matrix;
          m_resources = n_cols valuation_matrix;
          problem = build_problem valuation_matrix
      in case solve problem of
           Inl exn \<Rightarrow> Inl exn
         | Inr s \<Rightarrow>
             if problem_status s \<notin> set [''optimal'', ''optimal_inaccurate'']
             then Inl (ValueError ''Fair division impossible with given valuations'')
             else Inr
               \<lparr>status = problem_status s,
                min_utility = min_utility_value s,
                allocations =
                  \<lparr>n_rows = n_agents, n_cols = m_resources, item = allocations_value s\<rparr>,
                utilities =
                  map (\<lambda>i. \<Sum>j<m_resources.
                         allocations_value s i j * item valuation_matrix i j)
                    [0..<n_agents]\<rparr>)"

text \<open>The data model's invariant on the input: at least one agent, one resource, no negative entry.\<close>

definition valid :: "ndarray \<Rightarrow> bool" where
  "valid v = (1 \<le> n_rows v \<and> 1 \<le> n_cols v \<and> (\<forall>i<n_rows v. \<forall>j<n_cols v. 0 \<le> item v i j))"

text \<open>
  A solver that returns the same answer whatever it is asked, and one that raises the
  same exception; used to state concrete runs.
\<close>

definition answering :: "solution \<Rightarrow> problem \<Rightarrow> error + solution" where
  "answering s p = Inr s"

definition failing :: "error \<Rightarrow> problem \<Rightarrow> error + solution" where
  "failing exn p = Inl exn"

subsection \<open>Notions the properties are stated with\<close>

text \<open>Agent \<open>i\<close>'s utility under the allocation \<open>a\<close>, and the sum of all valuations.\<close>

definition utility :: "ndarray \<Rightarrow> (nat \<Rightarrow> nat \<Rightarrow> real) \<Rightarrow> nat \<Rightarrow> real" where
  "utility v a i = (\<Sum>j<n_cols v. a i j * item v i j)"

definition total_valuation :: "ndarray \<Rightarrow> real" where
  "total_valuation v = (\<Sum>i<n_rows v. \<Sum>j<n_cols v. item v i j)"

text \<open>The variables that occur in a problem.\<close>

fun variables_of :: "expression \<Rightarrow> expression set" where
  "variables_of (Allocations n m) = {Allocations n m}"
| "variables_of MinUtility = {MinUtility}"
| "variables_of (Const t) = {}"
| "variables_of (Index a i) = variables_of a"
| "variables_of (Sum_axis0 a) = variables_of a"
| "variables_of (Sum a) = variables_of a"
| "variables_of (Multiply a b) = variables_of a \<union> variables_of b"

fun constraint_variables :: "constraint \<Rightarrow> expression set" where
  "constraint_variables (Geq a b) = variables_of a \<union> variables_of b"
| "constraint_variables (Leq a b) = variables_of a \<union> variables_of b"
| "constraint_variables (Equals a b) = variables_of a \<union> variables_of b"

definition variables :: "problem \<Rightarrow> expression set" where
  "variables p =
     (case objective p of Maximize a \<Rightarrow> variables_of a) \<union>
     \<Union> (set (map constraint_variables (constraints p)))"




subsection \<open>Concrete inputs and solver answers\<close>

text \<open>The first example of the source's docstring, with its exact optimum.\<close>

definition scenario1 :: ndarray where
  "scenario1 = np_array [[80, 19, 1], [70, 1, 29]]"

definition scenario1_solution :: solution where
  "scenario1_solution =
     \<lparr>problem_status = ''optimal'', min_utility_value = 185 / 3,
      allocations_value = item (np_array [[8 / 15, 1, 0], [7 / 15, 0, 1]])\<rparr>"

text \<open>The same example as the docstring prints it, rounded to two places.\<close>

definition scenario1_rounded :: solution where
  "scenario1_rounded =
     \<lparr>problem_status = ''optimal'', min_utility_value = 6167 / 100,
      allocations_value = item (np_array [[53 / 100, 1, 0], [47 / 100, 0, 1]])\<rparr>"

definition scenario1_rounded_result :: result where
  "scenario1_rounded_result =
     \<lparr>status = ''optimal'', min_utility = 6167 / 100,
      allocations = \<lparr>n_rows = 2, n_cols = 3,
        item = item (np_array [[53 / 100, 1, 0], [47 / 100, 0, 1]])\<rparr>,
      utilities = [307 / 5, 619 / 10]\<rparr>"

text \<open>What a solver leaves behind when it stops at its iteration limit.\<close>

definition gave_up :: solution where
  "gave_up =
     \<lparr>problem_status = ''user_limit'', min_utility_value = 0,
      allocations_value = (\<lambda>i j. 0)\<rparr>"


text \<open>The third example of the docstring: the first agent values everything at 100, the second at 1.\<close>

definition scenario3 :: ndarray where
  "scenario3 = np_array [[100, 100], [1, 1]]"

definition scenario3_solution :: solution where
  "scenario3_solution =
     \<lparr>problem_status = ''optimal'', min_utility_value = 200 / 101,
      allocations_value = item (np_array [[1 / 101, 1 / 101], [100 / 101, 100 / 101]])\<rparr>"

definition scenario3_result :: result where
  "scenario3_result =
     \<lparr>status = ''optimal'', min_utility = 200 / 101,
      allocations = \<lparr>n_rows = 2, n_cols = 2,
        item = item (np_array [[1 / 101, 1 / 101], [100 / 101, 100 / 101]])\<rparr>,
      utilities = [200 / 101, 200 / 101]\<rparr>"

text \<open>The same example as a solver would print it, rounded to two places.\<close>

definition scenario3_rounded :: solution where
  "scenario3_rounded =
     \<lparr>problem_status = ''optimal'', min_utility_value = 198 / 100,
      allocations_value = item (np_array [[1 / 100, 1 / 100], [99 / 100, 99 / 100]])\<rparr>"

text \<open>The matrix \<open>v\<close> with the entry at \<open>(i, j)\<close> set to \<open>x\<close>, all else as it was.\<close>

definition raised :: "ndarray \<Rightarrow> nat \<Rightarrow> nat \<Rightarrow> real \<Rightarrow> ndarray" where
  "raised v i j x = v\<lparr>item := (\<lambda>k l. if k = i \<and> l = j then x else item v k l)\<rparr>"

text \<open>
  Two matrices that differ in one entry, the first agent's valuation of the second
  resource (0, then 1). Both problems have many optimal allocations: the second agent
  cannot get above 1, and the first agent reaches 1 with half of the first resource.
\<close>

definition before :: ndarray where
  "before = np_array [[2, 0], [0, 1]]"

definition after :: ndarray where
  "after = raised before 0 1 1"

definition before_solution :: solution where
  "before_solution =
     \<lparr>problem_status = ''optimal'', min_utility_value = 1,
      allocations_value = item (np_array [[1, 0], [0, 1]])\<rparr>"

definition after_solution :: solution where
  "after_solution =
     \<lparr>problem_status = ''optimal'', min_utility_value = 1,
      allocations_value = item (np_array [[1 / 2, 0], [1 / 2, 1]])\<rparr>"

text \<open>
  A solver that tells the two problems apart by trying a point that only the second
  admits, and answers each with one of its optimal solutions.
\<close>

definition probe :: solution where
  "probe =
     \<lparr>problem_status = ''optimal'', min_utility_value = 1 / 2,
      allocations_value = item (np_array [[0, 1 / 2], [1, 1 / 2]])\<rparr>"

definition fickle :: "problem \<Rightarrow> error + solution" where
  "fickle p = (if satisfies 0 probe p then Inr after_solution else Inr before_solution)"

definition before_result :: result where
  "before_result =
     \<lparr>status = ''optimal'', min_utility = 1,
      allocations = \<lparr>n_rows = 2, n_cols = 2, item = item (np_array [[1, 0], [0, 1]])\<rparr>,
      utilities = [2, 1]\<rparr>"

definition after_result :: result where
  "after_result =
     \<lparr>status = ''optimal'', min_utility = 1,
      allocations = \<lparr>n_rows = 2, n_cols = 2, item = item (np_array [[1 / 2, 0], [1 / 2, 1]])\<rparr>,
      utilities = [1, 1]\<rparr>"

text \<open>What a solver leaves behind when it declares the problem infeasible.\<close>

definition refused :: solution where
  "refused =
     \<lparr>problem_status = ''infeasible'', min_utility_value = 0,
      allocations_value = (\<lambda>i j. 0)\<rparr>"

text \<open>A matrix with a negative entry, and the optimum of its problem.\<close>

definition in_debt :: ndarray where
  "in_debt = np_array [[- 1]]"

definition in_debt_solution :: solution where
  "in_debt_solution =
     \<lparr>problem_status = ''optimal'', min_utility_value = - 1,
      allocations_value = item (np_array [[1]])\<rparr>"

text \<open>The exception of the modelling library when the solver breaks down.\<close>

definition solver_failed :: error where
  "solver_failed = SolverError ''Solver failed. Try another solver.''"




definition huge_unbounded :: solution where
  "huge_unbounded =
     \<lparr>problem_status = ''unbounded'', min_utility_value = 0,
      allocations_value = (\<lambda>i j. 0)\<rparr>"


text \<open>A matrix with no agent and two resources: \<^verbatim>\<open>np.zeros((0, 2))\<close>.\<close>

definition no_agents :: ndarray where
  "no_agents = \<lparr>n_rows = 0, n_cols = 2, item = (\<lambda>i j. 0)\<rparr>"

section \<open>Properties\<close>

subsection \<open>What the constructed problem says\<close>

lemma satisfies_build_problem:
  "satisfies e s (build_problem v) \<longleftrightarrow>
     (\<forall>i<n_rows v. \<forall>j<n_cols v.
        - e \<le> allocations_value s i j \<and> allocations_value s i j \<le> 1 + e) \<and>
     (\<forall>j<n_cols v. \<bar>(\<Sum>i<n_rows v. allocations_value s i j) - 1\<bar> \<le> e) \<and>
     (\<forall>i<n_rows v. min_utility_value s \<le> utility v (allocations_value s) i + e)"
proof -
  have shift: "- e \<le> x \<longleftrightarrow> 0 \<le> x + e" for x :: real
    by linarith
  show ?thesis
    unfolding shift
    by (auto simp add: satisfies_def build_problem_def utility_def Let_def list_all_iff)
qed

lemma objective_value_build_problem:
  "objective_value s (build_problem v) = Some (min_utility_value s)"
  by (simp add: objective_value_def build_problem_def Let_def)

lemma solves_build_problem:
  "solves e s (build_problem v) \<longleftrightarrow>
     satisfies e s (build_problem v) \<and>
     (\<forall>s'. satisfies 0 s' (build_problem v) \<longrightarrow> min_utility_value s' \<le> min_utility_value s + e)"
  by (simp add: solves_def objective_value_build_problem)


lemma result_from_solver:
  assumes "egalitarian_division solve v = Inr r"
  obtains s where "solve (build_problem v) = Inr s"
    and "problem_status s \<in> {''optimal'', ''optimal_inaccurate''}"
    and "status r = problem_status s"
    and "min_utility r = min_utility_value s"
    and "allocations r = \<lparr>n_rows = n_rows v, n_cols = n_cols v, item = allocations_value s\<rparr>"
    and "utilities r = map (utility v (allocations_value s)) [0..<n_rows v]"
  using assms
  by (auto simp add: egalitarian_division_def utility_def Let_def split: sum.splits if_splits)

subsection \<open>Feasibility and boundedness\<close>



subsection \<open>From nearly feasible to feasible\<close>

lemma row_le_total:
  assumes "valid v" and "i < n_rows v"
  shows "(\<Sum>j<n_cols v. item v i j) \<le> total_valuation v"
proof -
  have "\<And>k. k \<in> {..<n_rows v} \<Longrightarrow> 0 \<le> (\<Sum>j<n_cols v. item v k j)"
    using assms(1) by (auto simp add: valid_def intro!: sum_nonneg)
  then have "(\<Sum>j<n_cols v. item v i j) \<le> (\<Sum>k<n_rows v. \<Sum>j<n_cols v. item v k j)"
    using assms(2) member_le_sum[of i "{..<n_rows v}" "\<lambda>k. \<Sum>j<n_cols v. item v k j"]
    by simp
  then show ?thesis by (simp add: total_valuation_def)
qed


text \<open>
  An allocation that meets the bounds and the column sums within \<open>e\<close> has an exactly
  feasible one next to it: cut the negative entries off and rescale each column. No agent
  loses more than \<open>(n + 1) * e\<close> times the total valuation on the way.
\<close>

lemma project_allocation:
  fixes a :: "nat \<Rightarrow> nat \<Rightarrow> real"
  assumes v: "valid v" and e0: "0 \<le> e" and e1: "e < 1"
    and lo: "\<And>i j. i < n_rows v \<Longrightarrow> j < n_cols v \<Longrightarrow> 0 \<le> a i j + e"
    and col: "\<And>j. j < n_cols v \<Longrightarrow> \<bar>(\<Sum>i<n_rows v. a i j) - 1\<bar> \<le> e"
  shows "\<exists>a'. (\<forall>i<n_rows v. \<forall>j<n_cols v. 0 \<le> a' i j \<and> a' i j \<le> 1) \<and>
              (\<forall>j<n_cols v. (\<Sum>i<n_rows v. a' i j) = 1) \<and>
              (\<forall>i<n_rows v. utility v a i - (real (n_rows v) + 1) * e * total_valuation v
                  \<le> utility v a' i)"
proof -
  define n where "n = n_rows v"
  define m where "m = n_cols v"
  define b where "b i j = max (a i j) 0" for i j
  define S where "S j = (\<Sum>i<n. b i j)" for j
  define a' where "a' i j = b i j / S j" for i j
  define d where "d = (real n + 1) * e"
  have nn: "\<And>i j. i < n \<Longrightarrow> j < m \<Longrightarrow> 0 \<le> item v i j"
    using v by (auto simp add: valid_def n_def m_def)
  have b0: "0 \<le> b i j" for i j by (simp add: b_def)
  have ab: "a i j \<le> b i j" for i j by (simp add: b_def)
  have be: "b i j \<le> a i j + e" if "i < n" "j < m" for i j
    using lo[of i j] that e0 by (simp add: b_def n_def m_def)
  have S_lo: "1 - e \<le> S j" if "j < m" for j
  proof -
    have "(\<Sum>i<n. a i j) \<le> S j" unfolding S_def by (rule sum_mono) (rule ab)
    moreover have "1 - e \<le> (\<Sum>i<n. a i j)"
      using col[of j] that by (simp add: n_def m_def abs_le_iff)
    ultimately show ?thesis by linarith
  qed
  have S_hi: "S j \<le> 1 + d" if "j < m" for j
  proof -
    have "S j \<le> (\<Sum>i<n. a i j + e)" unfolding S_def
      by (rule sum_mono) (use be that in simp)
    also have "\<dots> = (\<Sum>i<n. a i j) + real n * e" by (simp add: sum.distrib)
    also have "\<dots> \<le> 1 + e + real n * e"
      using col[of j] that by (simp add: n_def m_def abs_le_iff)
    finally show ?thesis by (simp add: d_def algebra_simps)
  qed
  have S_pos: "0 < S j" if "j < m" for j using S_lo[OF that] e1 by linarith
  have bS: "b i j \<le> S j" if "i < n" for i j
    unfolding S_def using member_le_sum[of i "{..<n}" "\<lambda>i. b i j"] that b0 by simp
  have a'0: "0 \<le> a' i j" if "j < m" for i j
    using b0 S_pos[OF that] by (simp add: a'_def)
  have a'1: "a' i j \<le> 1" if "i < n" "j < m" for i j
    using bS[OF that(1)] S_pos[OF that(2)] by (simp add: a'_def)
  have a'col: "(\<Sum>i<n. a' i j) = 1" if "j < m" for j
  proof -
    have "(\<Sum>i<n. a' i j) = S j / S j"
      unfolding a'_def by (simp add: sum_divide_distrib[symmetric] S_def)
    then show ?thesis using S_pos[OF that] by simp
  qed
  have close: "a i j - d \<le> a' i j" if "i < n" "j < m" for i j
  proof -
    have Sp: "0 < S j" by (rule S_pos[OF that(2)])
    have "b i j - a' i j = a' i j * (S j - 1)"
      using Sp by (simp add: a'_def field_simps)
    also have "\<dots> \<le> a' i j * d"
      by (rule mult_left_mono) (use S_hi[OF that(2)] a'0[OF that(2)] in simp_all)
    also have "\<dots> \<le> 1 * d"
      by (rule mult_right_mono) (use a'1[OF that] e0 in \<open>simp_all add: d_def\<close>)
    finally have "b i j - d \<le> a' i j" by simp
    with ab[of i j] show ?thesis by linarith
  qed
  have ut: "utility v a i - d * total_valuation v \<le> utility v a' i" if "i < n" for i
  proof -
    have d0: "0 \<le> d" using e0 by (simp add: d_def)
    have "utility v a i - d * (\<Sum>j<m. item v i j) = (\<Sum>j<m. (a i j - d) * item v i j)"
      by (simp add: utility_def m_def sum_distrib_left sum_subtractf left_diff_distrib)
    also have "\<dots> \<le> (\<Sum>j<m. a' i j * item v i j)"
      by (rule sum_mono) (use close[OF that] nn[OF that] in \<open>simp add: mult_right_mono\<close>)
    finally have 1: "utility v a i - d * (\<Sum>j<m. item v i j) \<le> utility v a' i"
      by (simp add: utility_def m_def)
    have "(\<Sum>j<m. item v i j) \<le> total_valuation v"
      using row_le_total[OF v] that by (simp add: n_def m_def)
    then have "d * (\<Sum>j<m. item v i j) \<le> d * total_valuation v"
      using d0 by (rule mult_left_mono)
    with 1 show ?thesis by linarith
  qed
  show ?thesis
    apply (rule exI[of _ a'])
    using a'0 a'1 a'col ut by (simp add: n_def m_def d_def)
qed

text \<open>
  The floor of a solution within \<open>e\<close> is at most \<open>e\<close> above every agent's utility, and
  some exactly feasible point has a floor only a little below the least utility.
\<close>

lemma least_utility_reachable:
  assumes v: "valid v" and e0: "0 \<le> e" and e1: "e < 1"
    and sat: "satisfies e s (build_problem v)"
    and low: "\<And>i. i < n_rows v \<Longrightarrow> c \<le> utility v (allocations_value s) i"
  shows "\<exists>s'. satisfies 0 s' (build_problem v) \<and>
            min_utility_value s' = c - (real (n_rows v) + 1) * e * total_valuation v \<and>
            (\<forall>i<n_rows v. \<forall>j<n_cols v. 0 \<le> allocations_value s' i j)"
proof -
  have lo: "\<And>i j. i < n_rows v \<Longrightarrow> j < n_cols v \<Longrightarrow> 0 \<le> allocations_value s i j + e"
    and col: "\<And>j. j < n_cols v \<Longrightarrow> \<bar>(\<Sum>i<n_rows v. allocations_value s i j) - 1\<bar> \<le> e"
    using sat unfolding satisfies_build_problem by (force, simp)
  have "\<exists>a'. (\<forall>i<n_rows v. \<forall>j<n_cols v. 0 \<le> a' i j \<and> a' i j \<le> 1) \<and>
      (\<forall>j<n_cols v. (\<Sum>i<n_rows v. a' i j) = 1) \<and>
      (\<forall>i<n_rows v. utility v (allocations_value s) i
          - (real (n_rows v) + 1) * e * total_valuation v \<le> utility v a' i)"
    by (rule project_allocation[where a = "allocations_value s", OF v e0 e1])
      (use lo col in simp_all)
  then obtain a' where
    a': "\<forall>i<n_rows v. \<forall>j<n_cols v. 0 \<le> a' i j \<and> a' i j \<le> 1"
    "\<forall>j<n_cols v. (\<Sum>i<n_rows v. a' i j) = 1"
    "\<forall>i<n_rows v. utility v (allocations_value s) i
        - (real (n_rows v) + 1) * e * total_valuation v \<le> utility v a' i"
    by blast
  define s' where "s' = \<lparr>problem_status = problem_status s,
     min_utility_value = c - (real (n_rows v) + 1) * e * total_valuation v,
     allocations_value = a'\<rparr>"
  have "min_utility_value s' \<le> utility v (allocations_value s') i" if "i < n_rows v" for i
  proof -
    have "utility v (allocations_value s) i - (real (n_rows v) + 1) * e * total_valuation v
        \<le> utility v a' i"
      using a'(3) that by simp
    moreover have "c \<le> utility v (allocations_value s) i"
      by (rule low[OF that])
    ultimately show ?thesis by (simp add: s'_def)
  qed
  then have "satisfies 0 s' (build_problem v)"
    unfolding satisfies_build_problem using a'(1,2) by (simp add: s'_def)
  then show ?thesis
    using a'(1) by (intro exI[of _ s']) (simp add: s'_def)
qed

subsection \<open>Raising one valuation\<close>

lemma raised_shape: "n_rows (raised v i j x) = n_rows v" "n_cols (raised v i j x) = n_cols v"
  by (simp_all add: raised_def)

lemma utility_raised:
  assumes "item v i j \<le> x" and "\<And>l. l < n_cols v \<Longrightarrow> 0 \<le> a k l"
  shows "utility v a k \<le> utility (raised v i j x) a k"
  unfolding utility_def raised_shape
proof (rule sum_mono)
  fix l assume "l \<in> {..<n_cols v}"
  then have "0 \<le> a k l" using assms(2) by simp
  moreover have "item v k l \<le> item (raised v i j x) k l"
    using assms(1) by (simp add: raised_def)
  ultimately show "a k l * item v k l \<le> a k l * item (raised v i j x) k l"
    by (rule mult_left_mono[rotated])
qed

section \<open>Concrete runs\<close>

subsection \<open>The first example\<close>

lemma scenario1_shape: "n_rows scenario1 = 2" "n_cols scenario1 = 3"
  by (simp_all add: scenario1_def np_array_def)


lemma scenario1_feasible: "satisfies 0 scenario1_solution (build_problem scenario1)"
  by (simp add: satisfies_def build_problem_def scenario1_def scenario1_solution_def
      np_array_def Let_def lessThan_Suc numeral_2_eq_2 numeral_3_eq_3 less_Suc_eq)




lemma scenario1_rounded_feasible:
  "satisfies (1 / 2) scenario1_rounded (build_problem scenario1)"
  by (simp add: satisfies_def build_problem_def scenario1_def scenario1_rounded_def
      np_array_def Let_def lessThan_Suc numeral_2_eq_2 numeral_3_eq_3 less_Suc_eq)

lemma scenario1_rounded_run:
  "egalitarian_division (answering scenario1_rounded) scenario1 = Inr scenario1_rounded_result"
  by (simp add: egalitarian_division_def answering_def scenario1_def scenario1_rounded_def
      scenario1_rounded_result_def
      np_array_def Let_def upt_conv_Cons lessThan_Suc numeral_2_eq_2 numeral_3_eq_3)

subsection \<open>The third example\<close>

lemma scenario3_shape: "n_rows scenario3 = 2" "n_cols scenario3 = 2"
  by (simp_all add: scenario3_def np_array_def)

lemma scenario3_feasible: "satisfies 0 scenario3_solution (build_problem scenario3)"
  by (simp add: satisfies_def build_problem_def scenario3_def scenario3_solution_def
      np_array_def Let_def lessThan_Suc numeral_2_eq_2 less_Suc_eq)

lemma scenario3_run:
  "egalitarian_division (answering scenario3_solution) scenario3 = Inr scenario3_result"
  by (simp add: egalitarian_division_def answering_def scenario3_def scenario3_solution_def
      scenario3_result_def
      np_array_def Let_def upt_conv_Cons lessThan_Suc numeral_2_eq_2)

lemma scenario3_optimum:
  assumes "satisfies 0 s (build_problem scenario3)"
  shows "min_utility_value s \<le> 200 / 101"
proof -
  define a where "a = allocations_value s"
  have c: "\<And>j. j < 2 \<Longrightarrow> (\<Sum>i<2. a i j) = 1"
    and u: "\<And>i. i < 2 \<Longrightarrow> min_utility_value s \<le> utility scenario3 a i"
    using assms unfolding satisfies_build_problem scenario3_shape a_def by simp_all
  have c0: "a 0 0 + a (Suc 0) 0 = 1" and c1: "a 0 (Suc 0) + a (Suc 0) (Suc 0) = 1"
    using c[of 0] c[of "Suc 0"] by (simp_all add: lessThan_Suc numeral_2_eq_2)
  have u0: "min_utility_value s \<le> 100 * a 0 0 + 100 * a 0 (Suc 0)"
    and u1: "min_utility_value s \<le> a (Suc 0) 0 + a (Suc 0) (Suc 0)"
    using u[of 0] u[of "Suc 0"]
    by (simp_all add: utility_def scenario3_def np_array_def lessThan_Suc numeral_2_eq_2)
  show ?thesis
    using c0 c1 u0 u1 by linarith
qed

lemma scenario3_solved: "solves 0 scenario3_solution (build_problem scenario3)"
  unfolding solves_build_problem
  using scenario3_feasible scenario3_optimum by (simp add: scenario3_solution_def)

lemma scenario3_rounded_solved:
  "solves (1 / 100) scenario3_rounded (build_problem scenario3)"
proof -
  have "satisfies (1 / 100) scenario3_rounded (build_problem scenario3)"
    by (simp add: satisfies_def build_problem_def scenario3_def scenario3_rounded_def
      np_array_def Let_def lessThan_Suc numeral_2_eq_2 less_Suc_eq)
  moreover have "min_utility_value s' \<le> min_utility_value scenario3_rounded + 1 / 100"
    if "satisfies 0 s' (build_problem scenario3)" for s'
    using scenario3_optimum[OF that] by (simp add: scenario3_rounded_def)
  ultimately show ?thesis unfolding solves_build_problem by simp
qed

subsection \<open>Two matrices that differ in one entry\<close>

lemma before_shape: "n_rows before = 2" "n_cols before = 2"
  by (simp_all add: before_def np_array_def)

lemma after_shape: "n_rows after = 2" "n_cols after = 2"
  by (simp_all add: after_def raised_def before_shape)

lemma before_valid: "valid before"
  by (simp add: valid_def before_def np_array_def numeral_2_eq_2 less_Suc_eq)

lemma fickle_before: "fickle (build_problem before) = Inr before_solution"
  by (simp add: fickle_def satisfies_def build_problem_def before_def probe_def
      np_array_def Let_def lessThan_Suc numeral_2_eq_2 less_Suc_eq)

lemma fickle_after: "fickle (build_problem after) = Inr after_solution"
  by (simp add: fickle_def satisfies_def build_problem_def after_def raised_def before_def
      probe_def np_array_def Let_def lessThan_Suc numeral_2_eq_2 less_Suc_eq)

lemma before_solved: "solves 0 before_solution (build_problem before)"
proof -
  have "satisfies 0 before_solution (build_problem before)"
    by (simp add: satisfies_def build_problem_def before_def before_solution_def
        np_array_def Let_def lessThan_Suc numeral_2_eq_2 less_Suc_eq)
  moreover have "min_utility_value s \<le> 1" if "satisfies 0 s (build_problem before)" for s
  proof -
    have "min_utility_value s \<le> utility before (allocations_value s) (Suc 0)"
      and "allocations_value s (Suc 0) (Suc 0) \<le> 1"
      using that unfolding satisfies_build_problem before_shape by simp_all
    then show ?thesis
      by (simp add: utility_def before_def np_array_def lessThan_Suc numeral_2_eq_2)
  qed
  ultimately show ?thesis
    unfolding solves_build_problem by (simp add: before_solution_def)
qed

lemma after_solved: "solves 0 after_solution (build_problem after)"
proof -
  have "satisfies 0 after_solution (build_problem after)"
    by (simp add: satisfies_def build_problem_def after_def raised_def before_def
        after_solution_def np_array_def Let_def lessThan_Suc numeral_2_eq_2 less_Suc_eq)
  moreover have "min_utility_value s \<le> 1" if "satisfies 0 s (build_problem after)" for s
  proof -
    have "min_utility_value s \<le> utility after (allocations_value s) (Suc 0)"
      and "allocations_value s (Suc 0) (Suc 0) \<le> 1"
      using that unfolding satisfies_build_problem after_shape by simp_all
    then show ?thesis
      by (simp add: utility_def after_def raised_def before_def np_array_def lessThan_Suc
          numeral_2_eq_2)
  qed
  ultimately show ?thesis
    unfolding solves_build_problem by (simp add: after_solution_def)
qed

lemma before_run: "egalitarian_division fickle before = Inr before_result"
  unfolding egalitarian_division_def Let_def fickle_before
  by (simp add: before_def before_solution_def before_result_def
      np_array_def upt_conv_Cons lessThan_Suc numeral_2_eq_2)

lemma after_run: "egalitarian_division fickle after = Inr after_result"
  unfolding egalitarian_division_def Let_def fickle_after
  by (simp add: after_def raised_def before_def after_solution_def after_result_def
      np_array_def upt_conv_Cons lessThan_Suc numeral_2_eq_2)

subsection \<open>A negative entry\<close>

lemma in_debt_solved: "solves 0 in_debt_solution (build_problem in_debt)"
proof -
  have "satisfies 0 in_debt_solution (build_problem in_debt)"
    by (simp add: satisfies_def build_problem_def in_debt_def in_debt_solution_def
        np_array_def Let_def)
  moreover have "min_utility_value s \<le> - 1" if "satisfies 0 s (build_problem in_debt)" for s
  proof -
    have "min_utility_value s \<le> utility in_debt (allocations_value s) 0"
      and "(\<Sum>i<1. allocations_value s i 0) = 1"
      using that unfolding satisfies_build_problem by (simp_all add: in_debt_def np_array_def)
    then show ?thesis
      by (simp add: utility_def in_debt_def np_array_def)
  qed
  ultimately show ?thesis
    unfolding solves_build_problem by (simp add: in_debt_solution_def)
qed

lemma in_debt_run:
  "egalitarian_division (answering in_debt_solution) in_debt = Inr
     \<lparr>status = ''optimal'', min_utility = - 1,
      allocations = \<lparr>n_rows = 1, n_cols = 1, item = item (np_array [[1]])\<rparr>,
      utilities = [- 1]\<rparr>"
  by (simp add: egalitarian_division_def answering_def in_debt_def in_debt_solution_def
      np_array_def Let_def)

subsection \<open>Entries far from 1\<close>




section \<open>The claims\<close>

subsection \<open>The program builder\<close>

text \<open>
  C1. The problem built for an \<open>n\<close> by \<open>m\<close> matrix has exactly two variables, the
  \<open>n\<close> by \<open>m\<close> allocation and the scalar floor; its objective maximises the floor; its
  constraint list has the three array constraints and one constraint for each agent; and
  values satisfy it exactly when every allocation entry lies in \<open>[0, 1]\<close>, every column
  of the allocation sums to 1, and the floor is at most every agent's utility. Nothing
  else is demanded.
\<close>

theorem build_problem_program:
  "variables (build_problem v) = {Allocations (n_rows v) (n_cols v), MinUtility} \<and>
   objective (build_problem v) = Maximize MinUtility \<and>
   length (constraints (build_problem v)) = 3 + n_rows v \<and>
   (satisfies 0 s (build_problem v) \<longleftrightarrow>
      (\<forall>i<n_rows v. \<forall>j<n_cols v.
         0 \<le> allocations_value s i j \<and> allocations_value s i j \<le> 1) \<and>
      (\<forall>j<n_cols v. (\<Sum>i<n_rows v. allocations_value s i j) = 1) \<and>
      (\<forall>i<n_rows v.
         min_utility_value s \<le> (\<Sum>j<n_cols v. allocations_value s i j * item v i j)))"
proof -
  have "variables (build_problem v) = {Allocations (n_rows v) (n_cols v), MinUtility}"
    by (auto simp add: variables_def build_problem_def Let_def)
  moreover have "objective (build_problem v) = Maximize MinUtility"
    by (simp add: build_problem_def Let_def)
  moreover have "length (constraints (build_problem v)) = 3 + n_rows v"
    by (simp add: build_problem_def Let_def)
  ultimately show ?thesis
    by (simp add: satisfies_build_problem utility_def)
qed

theorem build_problem_program_witness:
  "variables (build_problem scenario1) = {Allocations 2 3, MinUtility} \<and>
   length (constraints (build_problem scenario1)) = 5 \<and>
   satisfies 0 scenario1_solution (build_problem scenario1) \<and>
   (\<Sum>i<2. allocations_value scenario1_solution i 0) = 1 \<and>
   min_utility_value scenario1_solution
     \<le> (\<Sum>j<3. allocations_value scenario1_solution 1 j * item scenario1 1 j)"
  using build_problem_program[of scenario1 scenario1_solution] scenario1_feasible
  by (auto simp add: scenario1_shape)

subsection \<open>Does the solve succeed?\<close>




subsection \<open>The result interpreter\<close>

text \<open>
  C3. The call fails exactly when the solver does not come back with the status
  \<^verbatim>\<open>optimal\<close> or \<^verbatim>\<open>optimal_inaccurate\<close>. When the solver raises, its exception is what
  the caller gets; when it reports any other status, the caller gets the
  \<^verbatim>\<open>ValueError\<close> of line 78; in both cases no allocation comes back. Otherwise the
  result holds the status as the solver reported it (so the two successes stay apart),
  the solver's floor, the solver's allocation in the shape of the valuation matrix, and
  for each agent the sum over the resources of allocation times valuation.
\<close>

theorem egalitarian_division_raises_iff:
  "(isl (egalitarian_division solve v) \<longleftrightarrow>
      \<not> (\<exists>s. solve (build_problem v) = Inr s \<and>
             problem_status s \<in> {''optimal'', ''optimal_inaccurate''})) \<and>
   (case solve (build_problem v) of
      Inl exn \<Rightarrow> egalitarian_division solve v = Inl exn
    | Inr s \<Rightarrow>
        if problem_status s \<noteq> ''optimal'' \<and> problem_status s \<noteq> ''optimal_inaccurate''
        then egalitarian_division solve v =
          Inl (ValueError ''Fair division impossible with given valuations'')
        else egalitarian_division solve v = Inr
          \<lparr>status = problem_status s,
           min_utility = min_utility_value s,
           allocations = \<lparr>n_rows = n_rows v, n_cols = n_cols v, item = allocations_value s\<rparr>,
           utilities =
             map (\<lambda>i. \<Sum>j<n_cols v. allocations_value s i j * item v i j) [0..<n_rows v]\<rparr>)"
  by (cases "solve (build_problem v)") (simp_all add: egalitarian_division_def Let_def)

theorem egalitarian_division_raises_iff_witness:
  "egalitarian_division (answering scenario1_rounded) scenario1 = Inr
     \<lparr>status = ''optimal'', min_utility = 6167 / 100,
      allocations = \<lparr>n_rows = 2, n_cols = 3,
        item = item (np_array [[53 / 100, 1, 0], [47 / 100, 0, 1]])\<rparr>,
      utilities = [307 / 5, 619 / 10]\<rparr> \<and>
   egalitarian_division (answering refused) scenario1 =
     Inl (ValueError ''Fair division impossible with given valuations'') \<and>
   egalitarian_division (failing solver_failed) scenario1 = Inl solver_failed"
  using egalitarian_division_raises_iff[of "answering scenario1_rounded" scenario1]
    egalitarian_division_raises_iff[of "answering refused" scenario1]
    egalitarian_division_raises_iff[of "failing solver_failed" scenario1]
  by (simp add: answering_def failing_def refused_def scenario1_rounded_def scenario1_shape)
    (simp add: scenario1_def np_array_def upt_conv_Cons lessThan_Suc numeral_2_eq_2
      numeral_3_eq_3)

subsection \<open>The returned allocation\<close>




subsection \<open>The returned utilities\<close>

text \<open>
  C5. On success every utility is recomputed from the returned allocation and the
  valuation matrix given by the caller: the \<open>i\<close>-th is the sum over the resources of
  allocation times valuation.
\<close>

theorem utilities_recomputed:
  "egalitarian_division solve v = Inr r \<Longrightarrow>
   length (utilities r) = n_rows v \<and>
   (\<forall>i<n_rows v. utilities r ! i = (\<Sum>j<n_cols v. item (allocations r) i j * item v i j))"
  by (auto simp add: egalitarian_division_def Let_def split: sum.splits if_splits)

theorem utilities_recomputed_witness:
  "egalitarian_division (answering scenario1_rounded) scenario1 = Inr scenario1_rounded_result \<and>
   length (utilities scenario1_rounded_result) = 2 \<and>
   utilities scenario1_rounded_result ! 0 = 53 / 100 * 80 + 1 * 19 + 0 * 1 \<and>
   utilities scenario1_rounded_result ! 1 =
     (\<Sum>j<3. item (allocations scenario1_rounded_result) 1 j * item scenario1 1 j)"
proof -
  have 1: "utilities scenario1_rounded_result ! 0 = 53 / 100 * 80 + 1 * 19 + 0 * 1"
    by (simp add: scenario1_rounded_result_def)
  from utilities_recomputed[where solve = "answering scenario1_rounded" and v = scenario1
      and r = scenario1_rounded_result] scenario1_rounded_run 1
  show ?thesis by (simp add: scenario1_shape)
qed

subsection \<open>The floor\<close>




subsection \<open>Monotonicity\<close>

text \<open>
  C7, as stated, fails: nothing in the program chooses among several optimal allocations.
  Here the first agent's valuation of the second resource rises from 0 to 1, the solver
  returns an optimal solution of each problem, and the first agent's utility falls from 2
  to 1.
\<close>

theorem own_utility_can_drop_counterexample:
  "valid before \<and> item before 0 1 < item after 0 1 \<and>
   fickle (build_problem before) = Inr before_solution \<and>
   solves 0 before_solution (build_problem before) \<and>
   fickle (build_problem after) = Inr after_solution \<and>
   solves 0 after_solution (build_problem after) \<and>
   egalitarian_division fickle before = Inr before_result \<and>
   egalitarian_division fickle after = Inr after_result \<and>
   utilities after_result ! 0 < utilities before_result ! 0"
  using before_valid before_solved after_solved before_run after_run fickle_before fickle_after
  by (simp add: after_def raised_def before_def np_array_def before_result_def
      after_result_def)

text \<open>
  C7, amended. When one valuation of a valid matrix is raised and the solver solves both
  problems within \<open>e < 1\<close>, the floor does not fall, and the utility of the agent whose
  valuation was raised (as of every agent) stays at or above the old floor, up to \<open>e\<close>
  times a constant of the matrix; with \<open>e = 0\<close> exactly.
\<close>

theorem floor_monotone:
  assumes "valid v" and "i < n_rows v" and "j < n_cols v" and "item v i j \<le> x"
    and "0 \<le> e" and "e < 1"
    and "solve (build_problem v) = Inr s"
    and "solves e s (build_problem v)"
    and "solve (build_problem (raised v i j x)) = Inr t"
    and "solves e t (build_problem (raised v i j x))"
    and "egalitarian_division solve v = Inr r"
    and "egalitarian_division solve (raised v i j x) = Inr r'"
  shows "min_utility r - e * (2 + (real (n_rows v) + 1) * total_valuation v) \<le> min_utility r' \<and>
         min_utility r - e * (3 + (real (n_rows v) + 1) * total_valuation v) \<le> utilities r' ! i"
proof -
  define D where "D = (real (n_rows v) + 1) * e * total_valuation v"
  have sat: "satisfies e s (build_problem v)"
    using assms(8) unfolding solves_build_problem by simp
  have sat_t: "satisfies e t (build_problem (raised v i j x))"
    and opt_t: "\<And>s'. satisfies 0 s' (build_problem (raised v i j x)) \<Longrightarrow>
                min_utility_value s' \<le> min_utility_value t + e"
    using assms(10) unfolding solves_build_problem by auto
  have low: "min_utility_value s - e \<le> utility v (allocations_value s) k" if "k < n_rows v" for k
  proof -
    have "min_utility_value s \<le> utility v (allocations_value s) k + e"
      using sat that unfolding satisfies_build_problem by simp
    then show ?thesis by linarith
  qed
  from least_utility_reachable[OF assms(1) assms(5) assms(6) sat low] obtain s' where
    s': "satisfies 0 s' (build_problem v)" "min_utility_value s' = min_utility_value s - e - D"
    "\<forall>k<n_rows v. \<forall>l<n_cols v. 0 \<le> allocations_value s' k l"
    unfolding D_def by blast
  have "utility v (allocations_value s') k \<le> utility (raised v i j x) (allocations_value s') k"
    if "k < n_rows v" for k
    using utility_raised[OF assms(4)] s'(3) that by simp
  moreover have "min_utility_value s' \<le> utility v (allocations_value s') k"
    if "k < n_rows v" for k
    using s'(1) that unfolding satisfies_build_problem by simp
  ultimately have "min_utility_value s'
      \<le> utility (raised v i j x) (allocations_value s') k + 0" if "k < n_rows v" for k
    using that by fastforce
  then have "satisfies 0 s' (build_problem (raised v i j x))"
    using s'(1) unfolding satisfies_build_problem raised_shape by simp
  from opt_t[OF this] have floor: "min_utility_value s - 2 * e - D \<le> min_utility_value t"
    using s'(2) by simp
  from assms(11) obtain s1 where s1: "solve (build_problem v) = Inr s1"
    "min_utility r = min_utility_value s1"
    by (rule result_from_solver)
  from assms(12) obtain t1 where t1: "solve (build_problem (raised v i j x)) = Inr t1"
    "min_utility r' = min_utility_value t1"
    "utilities r' = map (utility (raised v i j x) (allocations_value t1))
       [0..<n_rows (raised v i j x)]"
    by (rule result_from_solver)
  have same: "s1 = s" "t1 = t"
    using s1(1) t1(1) assms(7,9) by simp_all
  have "min_utility_value t \<le> utility (raised v i j x) (allocations_value t) i + e"
    using sat_t assms(2) unfolding satisfies_build_problem raised_shape by simp
  moreover have "utilities r' ! i = utility (raised v i j x) (allocations_value t) i"
    using t1(3) assms(2) by (simp add: same raised_shape)
  ultimately have own: "min_utility_value s - 3 * e - D \<le> utilities r' ! i"
    using floor by simp
  have "min_utility r = min_utility_value s" "min_utility r' = min_utility_value t"
    using s1(2) t1(2) by (simp_all add: same)
  with floor own show ?thesis
    by (simp add: D_def algebra_simps)
qed

theorem floor_monotone_witness:
  "valid before \<and> item before 0 1 \<le> 1 \<and>
   fickle (build_problem before) = Inr before_solution \<and>
   solves 0 before_solution (build_problem before) \<and>
   fickle (build_problem (raised before 0 1 1)) = Inr after_solution \<and>
   solves 0 after_solution (build_problem (raised before 0 1 1)) \<and>
   egalitarian_division fickle before = Inr before_result \<and>
   egalitarian_division fickle (raised before 0 1 1) = Inr after_result \<and>
   min_utility before_result \<le> min_utility after_result \<and>
   min_utility before_result \<le> utilities after_result ! 0"
proof -
  have 1: "item before 0 1 \<le> 1" by (simp add: before_def np_array_def)
  have 2: "fickle (build_problem (raised before 0 1 1)) = Inr after_solution"
    using fickle_after by (simp add: after_def)
  have 3: "solves 0 after_solution (build_problem (raised before 0 1 1))"
    using after_solved by (simp add: after_def)
  have 4: "egalitarian_division fickle (raised before 0 1 1) = Inr after_result"
    using after_run by (simp add: after_def)
  from floor_monotone[where v = before and i = 0 and j = 1 and x = 1 and e = 0
      and solve = fickle and r = before_result and r' = after_result
      and s = before_solution and t = after_solution]
    before_valid 1 fickle_before before_solved 2 3 before_run 4
  show ?thesis by (simp add: before_shape)
qed

subsection \<open>The skewed example\<close>

text \<open>
  C8, as stated, fails: at the optimum the agent with the low valuations (the second
  row) holds nearly everything; its row sums to \<open>200 / 101\<close>, not to less than
  \<open>1 / 10\<close>.
\<close>

theorem low_valuations_counterexample:
  "answering scenario3_solution (build_problem scenario3) = Inr scenario3_solution \<and>
   solves 0 scenario3_solution (build_problem scenario3) \<and>
   egalitarian_division (answering scenario3_solution) scenario3 = Inr scenario3_result \<and>
   status scenario3_result = ''optimal'' \<and>
   item scenario3 1 0 = 1 \<and> item scenario3 1 1 = 1 \<and>
   \<not> (\<Sum>j<2. item (allocations scenario3_result) 1 j) < 1 / 10"
  using scenario3_solved scenario3_run
  by (simp add: answering_def)
    (simp add: scenario3_result_def scenario3_def np_array_def lessThan_Suc numeral_2_eq_2)

text \<open>
  C8, amended. It is the agent with the high valuations (the first row, the row the
  docstring tests) whose share is near zero: whenever the solver reports \<^verbatim>\<open>optimal\<close>
  with values that solve the problem within \<open>1 / 100\<close>, the call returns with status
  \<^verbatim>\<open>optimal\<close>, the first row of the allocation sums to less than \<open>1 / 10\<close> and the
  second row to more than \<open>19 / 10\<close>.
\<close>

theorem high_valuations_small_share:
  assumes "0 \<le> e" and "e \<le> 1 / 100"
    and "solve (build_problem scenario3) = Inr s"
    and "solves e s (build_problem scenario3)"
    and "problem_status s = ''optimal''"
  shows "\<exists>r. egalitarian_division solve scenario3 = Inr r \<and> status r = ''optimal'' \<and>
     (\<Sum>j<2. item (allocations r) 0 j) < 1 / 10 \<and>
     19 / 10 < (\<Sum>j<2. item (allocations r) 1 j)"
proof -
  define a where "a = allocations_value s"
  have sat: "satisfies e s (build_problem scenario3)"
    and opt: "\<And>s'. satisfies 0 s' (build_problem scenario3) \<Longrightarrow>
                min_utility_value s' \<le> min_utility_value s + e"
    using assms(4) unfolding solves_build_problem by auto
  have c: "\<And>j. j < 2 \<Longrightarrow> \<bar>(\<Sum>i<2. a i j) - 1\<bar> \<le> e"
    and u: "\<And>i. i < 2 \<Longrightarrow> min_utility_value s \<le> utility scenario3 a i + e"
    using sat unfolding satisfies_build_problem scenario3_shape a_def by simp_all
  have c0: "a 0 0 + a (Suc 0) 0 \<le> 1 + e"
    and c1: "a 0 (Suc 0) + a (Suc 0) (Suc 0) \<le> 1 + e"
    using c[of 0] c[of "Suc 0"] by (simp_all add: lessThan_Suc numeral_2_eq_2 abs_le_iff)
  have u1: "min_utility_value s \<le> a (Suc 0) 0 + a (Suc 0) (Suc 0) + e"
    using u[of "Suc 0"]
    by (simp_all add: utility_def scenario3_def np_array_def lessThan_Suc numeral_2_eq_2)
  have f: "200 / 101 \<le> min_utility_value s + e"
    using opt[OF scenario3_feasible] by (simp add: scenario3_solution_def)
  have row0: "a 0 0 + a 0 (Suc 0) < 1 / 10"
    and row1: "19 / 10 < a (Suc 0) 0 + a (Suc 0) (Suc 0)"
    using c0 c1 u1 f assms(1,2) by linarith+
  have "egalitarian_division solve scenario3 =
      Inr \<lparr>status = ''optimal'', min_utility = min_utility_value s,
        allocations = \<lparr>n_rows = 2, n_cols = 2, item = a\<rparr>,
        utilities = map (\<lambda>i. \<Sum>j<2. a i j * item scenario3 i j) [0..<2]\<rparr>"
    using assms(3,5) by (simp add: egalitarian_division_def Let_def scenario3_shape a_def)
  then show ?thesis
    using row0 row1 by (simp add: lessThan_Suc numeral_2_eq_2)
qed

theorem high_valuations_small_share_witness:
  "answering scenario3_rounded (build_problem scenario3) = Inr scenario3_rounded \<and>
   solves (1 / 100) scenario3_rounded (build_problem scenario3) \<and>
   problem_status scenario3_rounded = ''optimal'' \<and>
   \<not> isl (egalitarian_division (answering scenario3_rounded) scenario3) \<and>
   (\<Sum>j<2. item (allocations (projr (egalitarian_division (answering scenario3_rounded) scenario3))) 0 j)
     < 1 / 10"
proof -
  have 1: "answering scenario3_rounded (build_problem scenario3) = Inr scenario3_rounded"
    by (simp add: answering_def)
  have 2: "problem_status scenario3_rounded = ''optimal''"
    by (simp add: scenario3_rounded_def)
  from high_valuations_small_share[where e = "1 / 100" and solve = "answering scenario3_rounded"
      and s = scenario3_rounded]
    1 scenario3_rounded_solved 2
  show ?thesis by auto
qed

subsection \<open>Malformed input\<close>

text \<open>
  C9, as stated, fails: the function has no check of its input. The one-by-one matrix
  with the entry \<open>- 1\<close> goes through: the problem is built, the solver's optimum (the
  whole resource to the one agent, floor \<open>- 1\<close>) is read back, and a result is
  returned.
\<close>

theorem negative_entry_accepted_counterexample:
  "item in_debt 0 0 < 0 \<and> \<not> valid in_debt \<and>
   solves 0 in_debt_solution (build_problem in_debt) \<and>
   egalitarian_division (answering in_debt_solution) in_debt = Inr
     \<lparr>status = ''optimal'', min_utility = - 1,
      allocations = \<lparr>n_rows = 1, n_cols = 1, item = item (np_array [[1]])\<rparr>,
      utilities = [- 1]\<rparr>"
  using in_debt_solved in_debt_run
  by (simp add: valid_def) (simp add: in_debt_def np_array_def)

text \<open>
  C9, amended. No matrix is rejected before the problem is constructed. For every
  matrix, with a negative entry, with no agent or with no resource as for a valid one,
  the problem is built (the three array constraints and one constraint for each agent)
  and handed to the solver, and the call fails exactly when the solver does not come back
  with the status \<^verbatim>\<open>optimal\<close> or \<^verbatim>\<open>optimal_inaccurate\<close>: with the solver's own exception
  when it raises, with the \<^verbatim>\<open>ValueError\<close> of line 78 otherwise.
\<close>

theorem no_input_validation:
  "length (constraints (build_problem v)) = 3 + n_rows v \<and>
   (isl (egalitarian_division solve v) \<longleftrightarrow>
      \<not> (\<exists>s. solve (build_problem v) = Inr s \<and>
             problem_status s \<in> {''optimal'', ''optimal_inaccurate''})) \<and>
   (\<forall>exn. egalitarian_division solve v = Inl exn \<longrightarrow>
      solve (build_problem v) = Inl exn \<or>
      (\<exists>s. solve (build_problem v) = Inr s \<and>
           problem_status s \<notin> {''optimal'', ''optimal_inaccurate''} \<and>
           exn = ValueError ''Fair division impossible with given valuations''))"
  by (cases "solve (build_problem v)")
    (auto simp add: build_problem_def egalitarian_division_def Let_def)

theorem no_input_validation_witness:
  "item in_debt 0 0 < 0 \<and>
   length (constraints (build_problem in_debt)) = 4 \<and>
   \<not> isl (egalitarian_division (answering in_debt_solution) in_debt) \<and>
   n_rows no_agents = 0 \<and>
   length (constraints (build_problem no_agents)) = 3 \<and>
   egalitarian_division (answering refused) no_agents =
     Inl (ValueError ''Fair division impossible with given valuations'')"
proof -
  have 1: "answering in_debt_solution (build_problem in_debt) = Inr in_debt_solution"
    "problem_status in_debt_solution \<in> {''optimal'', ''optimal_inaccurate''}"
    "answering refused (build_problem no_agents) = Inr refused"
    "problem_status refused \<notin> {''optimal'', ''optimal_inaccurate''}"
    by (simp_all add: answering_def in_debt_solution_def refused_def)
  have 2: "item in_debt 0 0 < 0" "n_rows in_debt = 1" "n_rows no_agents = 0"
    by (simp_all add: in_debt_def no_agents_def np_array_def)
  from no_input_validation[of in_debt "answering in_debt_solution"]
    no_input_validation[of no_agents "answering refused"] 1 2
  show ?thesis by (auto simp add: isl_def)
qed

subsection \<open>The errors\<close>

text \<open>
  C10, as stated, fails for the solver error: when the solver breaks down, the modelling
  library raises its own \<^verbatim>\<open>SolverError\<close> from line 75, line 77 is not reached, and the
  caller can tell this exception from the \<^verbatim>\<open>ValueError\<close> that a status such as
  \<^verbatim>\<open>infeasible\<close> gives.
\<close>

theorem solver_error_distinguishable_counterexample:
  "egalitarian_division (failing solver_failed) scenario1 = Inl solver_failed \<and>
   egalitarian_division (answering refused) scenario1 =
     Inl (ValueError ''Fair division impossible with given valuations'') \<and>
   egalitarian_division (failing solver_failed) scenario1 \<noteq>
     egalitarian_division (answering refused) scenario1"
  by (simp add: egalitarian_division_def failing_def answering_def refused_def
      solver_failed_def Let_def)

text \<open>
  C10, amended. Whenever the solver comes back with a status other than \<^verbatim>\<open>optimal\<close> and
  \<^verbatim>\<open>optimal_inaccurate\<close>, whichever it is, the exception is the same: a \<^verbatim>\<open>ValueError\<close>
  with the one fixed message, which does not depend on the status. When the solver raises
  instead, its exception reaches the caller unchanged.
\<close>

theorem status_failures_same_error:
  "(\<forall>s. solve (build_problem v) = Inr s \<and>
        problem_status s \<notin> {''optimal'', ''optimal_inaccurate''} \<longrightarrow>
        egalitarian_division solve v =
          Inl (ValueError ''Fair division impossible with given valuations'')) \<and>
   (\<forall>exn. solve (build_problem v) = Inl exn \<longrightarrow> egalitarian_division solve v = Inl exn)"
  by (simp add: egalitarian_division_def Let_def)

theorem status_failures_same_error_witness:
  "problem_status refused = ''infeasible'' \<and>
   problem_status huge_unbounded = ''unbounded'' \<and>
   problem_status gave_up = ''user_limit'' \<and>
   egalitarian_division (answering refused) scenario1 =
     Inl (ValueError ''Fair division impossible with given valuations'') \<and>
   egalitarian_division (answering huge_unbounded) scenario1 =
     egalitarian_division (answering refused) scenario1 \<and>
   egalitarian_division (answering gave_up) scenario1 =
     egalitarian_division (answering refused) scenario1 \<and>
   egalitarian_division (failing solver_failed) scenario1 = Inl solver_failed"
proof -
  have 1: "answering refused (build_problem scenario1) = Inr refused"
    "answering huge_unbounded (build_problem scenario1) = Inr huge_unbounded"
    "answering gave_up (build_problem scenario1) = Inr gave_up"
    "failing solver_failed (build_problem scenario1) = Inl solver_failed"
    by (simp_all add: answering_def failing_def)
  have 2: "problem_status refused = ''infeasible''"
    "problem_status huge_unbounded = ''unbounded''"
    "problem_status gave_up = ''user_limit''"
    by (simp_all add: refused_def huge_unbounded_def gave_up_def)
  from status_failures_same_error[of "answering refused" scenario1]
    status_failures_same_error[of "answering huge_unbounded" scenario1]
    status_failures_same_error[of "answering gave_up" scenario1]
    status_failures_same_error[of "failing solver_failed" scenario1] 1 2
  show ?thesis by simp
qed

end
